theory Spec2Isabelle
  imports Main "HOL-Library.Sublist"
begin

section \<open>Python strings\<close>

text \<open>
  A Python \<open>str\<close> is modelled as a \<open>string\<close>: a list of characters, each one a code
  point in the range 0..255. Within that range \<open>str.isspace\<close>, \<open>str.lower\<close> and
  \<open>str.strip\<close> are the functions below; code points beyond 255 are outside the model.
\<close>

definition isspace :: "char \<Rightarrow> bool" where
  \<comment> \<open>\<open>str.isspace\<close> of one character: TAB, LF, VT, FF, CR, FS, GS, RS, US, space, NEL, NBSP.\<close>
  "isspace c =
     (let n = (of_char c :: nat)
      in (9 \<le> n \<and> n \<le> 13) \<or> (28 \<le> n \<and> n \<le> 32) \<or> n = 133 \<or> n = 160)"

definition lower_char :: "char \<Rightarrow> char" where
  \<comment> \<open>\<open>str.lower\<close> of one character: A..Z and the capital letters 0xC0..0xDE (0xD7, the
      multiplication sign, is no letter) move up by 32; every other character stays.\<close>
  "lower_char c =
     (let n = (of_char c :: nat)
      in if (65 \<le> n \<and> n \<le> 90) \<or> (192 \<le> n \<and> n \<le> 222 \<and> n \<noteq> 215)
         then char_of (n + 32) else c)"

definition lower :: "string \<Rightarrow> string" where
  "lower s = map lower_char s"

definition lstrip :: "string \<Rightarrow> string" where
  "lstrip s = dropWhile isspace s"

definition rstrip :: "string \<Rightarrow> string" where
  "rstrip s = rev (dropWhile isspace (rev s))"

definition strip :: "string \<Rightarrow> string" where
  \<comment> \<open>\<open>str.strip()\<close> with no argument: leading and trailing whitespace removed.\<close>
  "strip s = rstrip (lstrip s)"

definition fmt_opt :: "string option \<Rightarrow> string" where
  \<comment> \<open>An f-string field holding the result of \<open>os.getenv\<close>: \<open>None\<close> is rendered "None".\<close>
  "fmt_opt v = (case v of None \<Rightarrow> ''None'' | Some s \<Rightarrow> s)"

section \<open>JSON values and their rendering in an f-string\<close>

text \<open>
  What \<open>response.json()\<close> returns: \<open>None\<close>, a bool, an int, a float, a str, a list or a
  dict with string keys. A float is carried as the text Python prints for it, which is
  the only thing this program does with one.
\<close>

datatype json_value =
    JNull
  | JBool bool
  | JInt int
  | JFloat string
  | JStr string
  | JArr "json_value list"
  | JObj "(string \<times> json_value) list"

definition digit_char :: "nat \<Rightarrow> char" where
  "digit_char d = char_of (48 + d)"

function str_nat :: "nat \<Rightarrow> string" where
  "str_nat n = (if n < 10 then [digit_char n] else str_nat (n div 10) @ [digit_char (n mod 10)])"
  by pat_completeness auto
termination
  by (relation "measure id") auto

declare str_nat.simps [simp del]

definition str_int :: "int \<Rightarrow> string" where
  "str_int i = (if i < 0 then ''-'' @ str_nat (nat (- i)) else str_nat (nat i))"

definition hex_digit :: "nat \<Rightarrow> char" where
  "hex_digit d = (if d < 10 then char_of (48 + d) else char_of (87 + d))"

definition isprintable :: "char \<Rightarrow> bool" where
  \<comment> \<open>\<open>str.isprintable\<close> of one character in 0..255.\<close>
  "isprintable c =
     (let n = (of_char c :: nat)
      in (32 \<le> n \<and> n < 127) \<or> (161 \<le> n \<and> n \<noteq> 173))"

definition repr_char :: "char \<Rightarrow> char \<Rightarrow> string" where
  \<comment> \<open>One character of \<open>repr\<close> of a str whose quote character is \<open>q\<close>.\<close>
  "repr_char q c =
     (let n = (of_char c :: nat)
      in if c = q \<or> c = CHR 0x5C then [CHR 0x5C, c]
         else if n = 9 then [CHR 0x5C, CHR ''t'']
         else if n = 10 then [CHR 0x5C, CHR ''n'']
         else if n = 13 then [CHR 0x5C, CHR ''r'']
         else if isprintable c then [c]
         else [CHR 0x5C, CHR ''x'', hex_digit (n div 16), hex_digit (n mod 16)])"

definition repr_str :: "string \<Rightarrow> string" where
  \<comment> \<open>\<open>repr\<close> of a str: single quotes, unless it holds a single quote and no double quote.\<close>
  "repr_str s =
     (let q = (if CHR 0x27 \<in> set s \<and> CHR 0x22 \<notin> set s then CHR 0x22 else CHR 0x27)
      in [q] @ concat (map (repr_char q) s) @ [q])"

fun join :: "string \<Rightarrow> string list \<Rightarrow> string" where
  "join sep [] = []"
| "join sep [x] = x"
| "join sep (x # y # ys) = x @ sep @ join sep (y # ys)"

fun repr :: "json_value \<Rightarrow> string" where
  "repr JNull = ''None''"
| "repr (JBool b) = (if b then ''True'' else ''False'')"
| "repr (JInt i) = str_int i"
| "repr (JFloat t) = t"
| "repr (JStr s) = repr_str s"
| "repr (JArr xs) = ''['' @ join '', '' (map repr xs) @ '']''"
| "repr (JObj kvs) =
     ''{'' @ join '', '' (map (\<lambda>kv. repr_str (fst kv) @ '': '' @ repr (snd kv)) kvs) @ ''}''"

definition str_json :: "json_value \<Rightarrow> string" where
  \<comment> \<open>\<open>str(v)\<close>, which an f-string field applies: a str is itself, anything else its \<open>repr\<close>.\<close>
  "str_json v = (case v of JStr s \<Rightarrow> s | _ \<Rightarrow> repr v)"

section \<open>Exceptions, the external services and the log of calls\<close>

datatype py_exn =
    RequestException string
    \<comment> \<open>\<open>requests.RequestException\<close> or a subclass of it (\<open>HTTPError\<close>, \<open>ConnectionError\<close>,
        \<open>Timeout\<close>, ...), with \<open>str(e)\<close>\<close>
  | HTTPException nat string
    \<comment> \<open>\<open>fastapi.HTTPException(status_code, detail)\<close>\<close>
  | OtherException string
    \<comment> \<open>any other exception, with \<open>str(e)\<close>\<close>

record chat_message =
  role :: string
  content :: string

record chat_request =
  model :: string
  messages :: "chat_message list"

record chat_response =
  message :: chat_message

record post_request =
  url :: string
  json_payload :: json_value
  headers :: "(string \<times> string) list"

text \<open>
  The response object of \<open>requests.post\<close>: its status code, reason phrase and URL, and
  what \<open>json()\<close> does on it (return the decoded body, or raise). \<open>raise_for_status()\<close> is
  the library's method: it raises \<open>HTTPError(msg)\<close>, a \<open>RequestException\<close>, for a status
  from 400 to 599 (\<open>Some msg\<close>) and returns for every other status (\<open>None\<close>).
\<close>

record response =
  status_code :: nat
  reason :: string
  response_url :: string
  json :: "py_exn + json_value"

definition http_error_msg :: "string \<Rightarrow> response \<Rightarrow> string" where
  \<comment> \<open>\<open>f"{status_code} Client Error: {reason} for url: {url}"\<close>, and the same with "Server".\<close>
  "http_error_msg kind r =
     str_nat (status_code r) @ '' '' @ kind @ '' Error: '' @ reason r
       @ '' for url: '' @ response_url r"

definition raise_for_status :: "response \<Rightarrow> string option" where
  "raise_for_status r =
     (if 400 \<le> status_code r \<and> status_code r < 500 then Some (http_error_msg ''Client'' r)
      else if 500 \<le> status_code r \<and> status_code r < 600 then Some (http_error_msg ''Server'' r)
      else None)"

text \<open>
  The environment of one process: the two configuration values read at start-up, and the
  two services, each answering a request with a reply or an exception. One run of the
  pipeline sends each service no request twice (the two prompts differ in their first
  line), so within a run a service is a function of the request; two runs that may be
  answered differently are two environments.
\<close>

record env =
  BANK_API_URL :: "string option"
  BANK_API_KEY :: "string option"
  chat :: "chat_request \<Rightarrow> py_exn + chat_response"
  post :: "post_request \<Rightarrow> py_exn + response"

datatype event = ChatCall chat_request | PostCall post_request

type_synonym 'a io = "event list \<Rightarrow> (py_exn + 'a) \<times> event list"

definition ollama_chat :: "env \<Rightarrow> chat_request \<Rightarrow> chat_response io" where
  "ollama_chat w req tr = (chat w req, tr @ [ChatCall req])"

definition requests_post :: "env \<Rightarrow> post_request \<Rightarrow> response io" where
  "requests_post w req tr = (post w req, tr @ [PostCall req])"

section \<open>The program\<close>

definition nl :: string where
  "nl = [CHR 0x0A]"

definition classify_prompt :: "string \<Rightarrow> string" where
  "classify_prompt query_text =
     nl @ ''    Classify the following banking query into one of these categories: '' @ nl
     @ ''    - balance'' @ nl
     @ ''    - mini_statement'' @ nl
     @ ''    - last_transaction'' @ nl
     @ ''    - loan_balance'' @ nl
     @ ''    '' @ nl
     @ ''    If the query doesn't match, return 'unknown'.'' @ nl
     @ ''    '' @ nl
     @ ''    Query: '' @ [CHR 0x22] @ query_text @ [CHR 0x22] @ nl
     @ ''    Response:'' @ nl
     @ ''    ''"

definition user_request :: "string \<Rightarrow> chat_request" where
  \<comment> \<open>\<open>model="deepseek", messages=[{"role": "user", "content": prompt}]\<close>\<close>
  "user_request prompt =
     \<lparr>model = ''deepseek'', messages = [\<lparr>role = ''user'', content = prompt\<rparr>]\<rparr>"

definition categories :: "string list" where
  "categories = [''balance'', ''mini_statement'', ''last_transaction'', ''loan_balance'']"

definition classify_query_with_deepseek :: "env \<Rightarrow> string \<Rightarrow> string io" where
  "classify_query_with_deepseek w query_text tr =
     (let prompt = classify_prompt query_text
      in case ollama_chat w (user_request prompt) tr of
           (Inl e, tr') \<Rightarrow> (Inl e, tr')
         | (Inr response, tr') \<Rightarrow>
             (let query_type = lower (strip (content (message response)))
              in (Inr (if query_type \<in> set categories then query_type else ''unknown''), tr')))"

definition bank_headers :: "env \<Rightarrow> (string \<times> string) list" where
  "bank_headers w =
     [(''Authorization'', ''Bearer '' @ fmt_opt (BANK_API_KEY w)),
      (''Content-Type'', ''application/json'')]"

definition bank_request :: "env \<Rightarrow> string \<Rightarrow> json_value \<Rightarrow> post_request" where
  "bank_request w endpoint payload =
     \<lparr>url = fmt_opt (BANK_API_URL w) @ ''/'' @ endpoint,
      json_payload = payload,
      headers = bank_headers w\<rparr>"

definition api_error :: "py_exn \<Rightarrow> py_exn" where
  \<comment> \<open>The \<open>except requests.RequestException as e\<close> clause: any other exception passes.\<close>
  "api_error e =
     (case e of
        RequestException msg \<Rightarrow> HTTPException 400 (''API Error: '' @ msg)
      | _ \<Rightarrow> e)"

definition fetch_bank_data :: "env \<Rightarrow> string \<Rightarrow> json_value \<Rightarrow> json_value io" where
  "fetch_bank_data w endpoint payload tr =
     (case requests_post w (bank_request w endpoint payload) tr of
        (Inl e, tr') \<Rightarrow> (Inl (api_error e), tr')
      | (Inr response, tr') \<Rightarrow>
          (case raise_for_status response of
             Some msg \<Rightarrow> (Inl (api_error (RequestException msg)), tr')
           | None \<Rightarrow>
               (case json response of
                  Inl e \<Rightarrow> (Inl (api_error e), tr')
                | Inr v \<Rightarrow> (Inr v, tr'))))"

definition readable_prompt :: "string \<Rightarrow> json_value \<Rightarrow> string" where
  "readable_prompt query_text raw_json =
     nl @ ''    Convert the following banking API JSON response into a user-friendly message:'' @ nl
     @ nl
     @ ''    Query: '' @ [CHR 0x22] @ query_text @ [CHR 0x22] @ nl
     @ ''    JSON Response:'' @ nl
     @ ''    '' @ str_json raw_json @ nl
     @ nl
     @ ''    Format it in a short, clear message.'' @ nl
     @ ''    ''"

definition convert_json_to_readable_format :: "env \<Rightarrow> string \<Rightarrow> json_value \<Rightarrow> string io" where
  "convert_json_to_readable_format w query_text raw_json tr =
     (let prompt = readable_prompt query_text raw_json
      in case ollama_chat w (user_request prompt) tr of
           (Inl e, tr') \<Rightarrow> (Inl e, tr')
         | (Inr response, tr') \<Rightarrow> (Inr (strip (content (message response))), tr'))"

record BankQuery =
  account_number :: string
  query_text :: string

definition endpoint_map :: "(string \<times> string) list" where
  "endpoint_map =
     [(''balance'', ''account/balance''),
      (''mini_statement'', ''account/mini-statement''),
      (''last_transaction'', ''account/transactions''),
      (''loan_balance'', ''account/loan-balance'')]"

definition account_payload :: "BankQuery \<Rightarrow> json_value" where
  \<comment> \<open>\<open>{"account_number": request.account_number}\<close>\<close>
  "account_payload request = JObj [(''account_number'', JStr (account_number request))]"

definition bank_query :: "env \<Rightarrow> BankQuery \<Rightarrow> (string \<times> string) list io" where
  \<comment> \<open>The test \<open>query_type not in endpoint_map\<close> and the lookup \<open>endpoint_map[query_type]\<close>
      are the two branches of one lookup in the table.\<close>
  "bank_query w request tr =
     (case classify_query_with_deepseek w (query_text request) tr of
        (Inl e, tr1) \<Rightarrow> (Inl e, tr1)
      | (Inr query_type, tr1) \<Rightarrow>
          (case map_of endpoint_map query_type of
             None \<Rightarrow>
               (Inl (HTTPException 400 ''Query not recognized. Try rephrasing.''), tr1)
           | Some endpoint \<Rightarrow>
               (case fetch_bank_data w endpoint (account_payload request) tr1 of
                  (Inl e, tr2) \<Rightarrow> (Inl e, tr2)
                | (Inr raw_response, tr2) \<Rightarrow>
                    (case convert_json_to_readable_format w (query_text request) raw_response tr2 of
                       (Inl e, tr3) \<Rightarrow> (Inl e, tr3)
                     | (Inr readable_response, tr3) \<Rightarrow>
                         (Inr [(''response'', readable_response)], tr3)))))"

section \<open>Failure of the backend call, and stubbed environments\<close>

definition success_status :: "nat \<Rightarrow> bool" where
  \<comment> \<open>The 2xx statuses, which the specification calls success.\<close>
  "success_status sc = (200 \<le> sc \<and> sc < 300)"

definition backend_fails :: "env \<Rightarrow> post_request \<Rightarrow> string \<Rightarrow> bool" where
  \<comment> \<open>The backend call fails with description \<open>cause\<close>: \<open>requests.post\<close> raises a
      \<open>RequestException\<close> (a failure of the transport), or the response has a status from
      400 to 599, described by the status, its class, the reason phrase and the URL.\<close>
  "backend_fails w req cause =
     (case post w req of
        Inl e \<Rightarrow> e = RequestException cause
      | Inr resp \<Rightarrow>
          400 \<le> status_code resp \<and> status_code resp < 600
          \<and> cause = str_nat (status_code resp)
                @ (if status_code resp < 500 then '' Client Error: '' else '' Server Error: '')
                @ reason resp @ '' for url: '' @ response_url resp)"

definition reply :: "string \<Rightarrow> chat_response" where
  "reply text = \<lparr>message = \<lparr>role = ''assistant'', content = text\<rparr>\<rparr>"

definition balance_url :: string where
  "balance_url = ''https://api.bank.com/account/balance''"

definition ok_response :: "json_value \<Rightarrow> response" where
  "ok_response v =
     \<lparr>status_code = 200, reason = ''OK'', response_url = balance_url, json = Inr v\<rparr>"

definition stub_env ::
  "string \<Rightarrow> (py_exn + chat_response) \<Rightarrow> (py_exn + response) \<Rightarrow> (py_exn + chat_response) \<Rightarrow> env" where
  \<comment> \<open>An environment of stubs: the classification request for \<open>q\<close> is answered by \<open>c\<close>,
      every other chat request by \<open>h\<close>, every backend request by \<open>b\<close>.\<close>
  "stub_env q c b h =
     \<lparr>BANK_API_URL = Some ''https://api.bank.com'', BANK_API_KEY = Some ''secret'',
      chat = (\<lambda>req. if req = user_request (classify_prompt q) then c else h),
      post = (\<lambda>req. b)\<rparr>"

definition scenario_query :: BankQuery where
  "scenario_query = \<lparr>account_number = ''123'', query_text = ''what's my balance?''\<rparr>"

definition scenario_env :: "string \<Rightarrow> env" where
  \<comment> \<open>Scenario 1 of the specification, with the classifier's reply left open.\<close>
  "scenario_env label =
     stub_env ''what's my balance?'' (Inr (reply label))
       (Inr (ok_response (JObj [(''balance'', JInt 100)])))
       (Inr (reply ''Your balance is $100.''))"

definition rotated_env :: env where
  \<comment> \<open>Scenario 1 in a process started with another credential.\<close>
  "rotated_env = (scenario_env ''balance'')\<lparr>BANK_API_KEY := Some ''rotated''\<rparr>"

definition failing_env :: "py_exn + response \<Rightarrow> env" where
  \<comment> \<open>Scenario 3 of the specification, with the backend's answer left open.\<close>
  "failing_env b =
     stub_env ''what's my balance?'' (Inr (reply ''balance'')) b
       (Inr (reply ''Your balance is $100.''))"

definition error_response :: "nat \<Rightarrow> string \<Rightarrow> response" where
  "error_response sc phrase =
     \<lparr>status_code = sc, reason = phrase, response_url = balance_url,
      json = Inr (JObj [(''error'', JStr ''no such account'')])\<rparr>"

definition not_found :: string where
  "not_found = ''404 Client Error: Not Found for url: https://api.bank.com/account/balance''"

definition unavailable :: string where
  "unavailable =
     ''503 Server Error: Service Unavailable for url: https://api.bank.com/account/balance''"

definition multiple_choices :: response where
  \<comment> \<open>A 300 answer with a JSON body; \<open>requests\<close> follows no redirect from it.\<close>
  "multiple_choices =
     \<lparr>status_code = 300, reason = ''Multiple Choices'', response_url = balance_url,
      json = Inr (JObj [(''balance'', JInt 100)])\<rparr>"

definition classifier_env :: "string \<Rightarrow> string \<Rightarrow> env" where
  \<comment> \<open>The classification request for \<open>q\<close> is answered by \<open>text\<close>; every other call raises.\<close>
  "classifier_env q text =
     stub_env q (Inr (reply text)) (Inl (OtherException ''unexpected call''))
       (Inl (OtherException ''unexpected call''))"

definition transfer_query :: BankQuery where
  "transfer_query = \<lparr>account_number = ''123'', query_text = ''send money to Bob''\<rparr>"

definition padded_label :: string where
  "padded_label = ''  Loan_Balance '' @ [CHR 0x0A]"

definition balance_line :: string where
  "balance_line = ''balance'' @ [CHR 0x0A]"

definition padded_answer :: string where
  "padded_answer = ''  Your balance is $100. '' @ [CHR 0x0A]"

definition humanizer_env :: "string \<Rightarrow> env" where
  \<comment> \<open>Scenario 1 of the specification, with the humanizer's reply left open.\<close>
  "humanizer_env text =
     stub_env ''what's my balance?'' (Inr (reply ''balance''))
       (Inr (ok_response (JObj [(''balance'', JInt 100)])))
       (Inr (reply text))"

section \<open>Facts about trimming and lowercasing\<close>

lemma strip_decomp:
  "s = takeWhile isspace s @ strip s @ rev (takeWhile isspace (rev (dropWhile isspace s)))"
proof -
  let ?t = "dropWhile isspace s"
  have "rev ?t = takeWhile isspace (rev ?t) @ dropWhile isspace (rev ?t)"
    by simp
  then have "?t = rev (dropWhile isspace (rev ?t)) @ rev (takeWhile isspace (rev ?t))"
    by (metis rev_append rev_rev_ident)
  then have "?t = strip s @ rev (takeWhile isspace (rev ?t))"
    by (simp add: strip_def rstrip_def lstrip_def)
  moreover have "s = takeWhile isspace s @ ?t"
    by simp
  ultimately show ?thesis
    by metis
qed

lemma strip_padding:
  "\<exists>pre suf. s = pre @ strip s @ suf \<and> list_all isspace pre \<and> list_all isspace suf"
proof (intro exI conjI)
  show "s = takeWhile isspace s @ strip s @ rev (takeWhile isspace (rev (dropWhile isspace s)))"
    by (rule strip_decomp)
  show "list_all isspace (takeWhile isspace s)"
    by (simp add: list_all_iff) (meson set_takeWhileD)
  show "list_all isspace (rev (takeWhile isspace (rev (dropWhile isspace s))))"
    by (simp add: list_all_iff) (meson set_takeWhileD)
qed

lemma last_dropWhile: "dropWhile P xs \<noteq> [] \<Longrightarrow> last (dropWhile P xs) = last xs"
  by (induction xs) (auto split: if_splits)

lemma strip_ends:
  assumes "strip s \<noteq> []"
  shows "\<not> isspace (hd (strip s)) \<and> \<not> isspace (last (strip s))"
proof -
  let ?t = "dropWhile isspace s"
  let ?u = "dropWhile isspace (rev ?t)"
  have s: "strip s = rev ?u"
    by (simp add: strip_def rstrip_def lstrip_def)
  with assms have u: "?u \<noteq> []"
    by simp
  then have t: "?t \<noteq> []"
    by (cases "?t") simp_all
  have "last (strip s) = hd ?u"
    using u by (simp add: s last_rev)
  moreover have "\<not> isspace (hd ?u)"
    using u by (rule hd_dropWhile)
  moreover have "hd (strip s) = last ?u"
    using u by (simp add: s hd_rev)
  moreover have "last ?u = last (rev ?t)"
    using u by (rule last_dropWhile)
  moreover have "last (rev ?t) = hd ?t"
    using t by (simp add: last_rev)
  moreover have "\<not> isspace (hd ?t)"
    using t by (rule hd_dropWhile)
  ultimately show ?thesis
    by simp
qed

lemma strip_padded:
  assumes pre: "list_all isspace pre" and suf: "list_all isspace suf"
    and s: "s \<noteq> []" and h: "\<not> isspace (hd s)" and l: "\<not> isspace (last s)"
  shows "strip (pre @ s @ suf) = s"
proof -
  have "dropWhile isspace (pre @ s @ suf) = dropWhile isspace (s @ suf)"
    using pre by (intro dropWhile_append2) (simp add: list_all_iff)
  also have "\<dots> = s @ suf"
    using s h by (cases s) simp_all
  finally have a: "lstrip (pre @ s @ suf) = s @ suf"
    by (simp add: lstrip_def)
  have "dropWhile isspace (rev suf @ rev s) = dropWhile isspace (rev s)"
    using suf by (intro dropWhile_append2) (simp add: list_all_iff)
  then have "dropWhile isspace (rev (s @ suf)) = dropWhile isspace (rev s)"
    by simp
  also have "\<dots> = rev s"
    using s l by (cases "rev s") (simp_all add: last_rev [symmetric] hd_rev)
  finally have "rstrip (s @ suf) = s"
    by (simp add: rstrip_def)
  with a show ?thesis
    by (simp add: strip_def)
qed

lemma of_char_lt_256: "(of_char c :: nat) < 256"
  by (cases c) simp

lemma isspace_lower_char: "isspace (lower_char c) = isspace c"
  using of_char_lt_256 [of c]
  by (auto simp add: isspace_def lower_char_def Let_def)

section \<open>The four functions, unfolded\<close>

lemma classify_unfold:
  "classify_query_with_deepseek w q tr =
     (case chat w (user_request (classify_prompt q)) of
        Inl e \<Rightarrow> Inl e
      | Inr r \<Rightarrow>
          Inr (if lower (strip (content (message r))) \<in> set categories
               then lower (strip (content (message r))) else ''unknown''),
      tr @ [ChatCall (user_request (classify_prompt q))])"
  by (simp add: classify_query_with_deepseek_def ollama_chat_def Let_def split: sum.splits)

lemma fetch_unfold:
  "fetch_bank_data w endpoint payload tr =
     (case post w (bank_request w endpoint payload) of
        Inl e \<Rightarrow> Inl (api_error e)
      | Inr resp \<Rightarrow>
          (case raise_for_status resp of
             Some msg \<Rightarrow> Inl (HTTPException 400 (''API Error: '' @ msg))
           | None \<Rightarrow> (case json resp of Inl e \<Rightarrow> Inl (api_error e) | Inr v \<Rightarrow> Inr v)),
      tr @ [PostCall (bank_request w endpoint payload)])"
  by (simp add: fetch_bank_data_def requests_post_def api_error_def
      split: sum.splits option.splits)

lemma convert_unfold:
  "convert_json_to_readable_format w q raw tr =
     (case chat w (user_request (readable_prompt q raw)) of
        Inl e \<Rightarrow> Inl e
      | Inr r \<Rightarrow> Inr (strip (content (message r))),
      tr @ [ChatCall (user_request (readable_prompt q raw))])"
  by (simp add: convert_json_to_readable_format_def ollama_chat_def Let_def split: sum.splits)

lemma map_of_endpoint_map:
  "map_of endpoint_map c =
     (if c = ''balance'' then Some ''account/balance''
      else if c = ''mini_statement'' then Some ''account/mini-statement''
      else if c = ''last_transaction'' then Some ''account/transactions''
      else if c = ''loan_balance'' then Some ''account/loan-balance''
      else None)"
  by (simp add: endpoint_map_def)

lemma routed_iff: "map_of endpoint_map c \<noteq> None \<longleftrightarrow> c \<in> set categories"
  by (simp add: map_of_endpoint_map categories_def)

lemma unknown_not_category: "''unknown'' \<notin> set categories"
  by (simp add: categories_def)

lemma prompts_differ: "classify_prompt q \<noteq> readable_prompt q' raw"
  by (simp add: classify_prompt_def readable_prompt_def nl_def)

lemma classify_stub:
  "fst (classify_query_with_deepseek (stub_env q (Inr (reply label)) b h) q tr) =
     Inr (if lower (strip label) \<in> set categories then lower (strip label) else ''unknown'')"
  by (simp add: classify_unfold stub_env_def reply_def)

lemma fetch_fails:
  assumes "backend_fails w (bank_request w endpoint payload) cause"
  shows "fetch_bank_data w endpoint payload tr =
           (Inl (HTTPException 400 (''API Error: '' @ cause)),
            tr @ [PostCall (bank_request w endpoint payload)])"
  using assms
  by (auto simp add: fetch_unfold backend_fails_def api_error_def raise_for_status_def
      http_error_msg_def split: sum.splits)


lemma bank_query_routed:
  assumes "fst (classify_query_with_deepseek w (query_text request) tr) = Inr c"
    and "map_of endpoint_map c = Some endpoint"
  shows "\<exists>rest. snd (bank_query w request tr) =
           tr @ [ChatCall (user_request (classify_prompt (query_text request))),
                 PostCall (bank_request w endpoint (account_payload request))] @ rest"
  using assms
  by (auto simp add: bank_query_def classify_unfold fetch_unfold convert_unfold
      split: sum.splits option.splits)

lemma category_no_space: "c \<in> set categories \<Longrightarrow> c \<noteq> [] \<and> list_all (\<lambda>x. \<not> isspace x) c"
  by (auto simp add: categories_def isspace_def)

lemma lower_category_ends:
  assumes "lower s = c" and "c \<in> set categories"
  shows "s \<noteq> [] \<and> \<not> isspace (hd s) \<and> \<not> isspace (last s)"
proof -
  from assms category_no_space [of c] have ne: "s \<noteq> []"
    and ns: "list_all (\<lambda>x. \<not> isspace x) (map lower_char s)"
    by (auto simp add: lower_def)
  from ns have "\<forall>x \<in> set s. \<not> isspace x"
    by (simp add: list_all_iff isspace_lower_char)
  with ne show ?thesis
    by simp
qed

lemma variant_normalises:
  assumes "list_all isspace pre" and "list_all isspace suf"
    and "lower s = c" and "c \<in> set categories"
  shows "lower (strip (pre @ s @ suf)) = c"
  using assms lower_category_ends [of s c] by (simp add: strip_padded)

lemma classify_characterised:
  assumes r: "chat w (user_request (classify_prompt q)) = Inr r"
    and c: "c \<in> set categories"
  shows "fst (classify_query_with_deepseek w q tr) = Inr c
         \<longleftrightarrow> (\<exists>pre s suf. content (message r) = pre @ s @ suf
                \<and> list_all isspace pre \<and> list_all isspace suf \<and> lower s = c)"
proof
  assume "fst (classify_query_with_deepseek w q tr) = Inr c"
  with r c unknown_not_category have n: "lower (strip (content (message r))) = c"
    by (auto simp add: classify_unfold split: if_splits)
  obtain pre suf where "content (message r) = pre @ strip (content (message r)) @ suf"
    and "list_all isspace pre" and "list_all isspace suf"
    using strip_padding [of "content (message r)"] by blast
  with n show "\<exists>pre s suf. content (message r) = pre @ s @ suf
      \<and> list_all isspace pre \<and> list_all isspace suf \<and> lower s = c"
    by blast
next
  assume "\<exists>pre s suf. content (message r) = pre @ s @ suf
      \<and> list_all isspace pre \<and> list_all isspace suf \<and> lower s = c"
  then obtain pre s suf where d: "content (message r) = pre @ s @ suf"
    and "list_all isspace pre" and "list_all isspace suf" and "lower s = c"
    by blast
  with c have "lower (strip (pre @ s @ suf)) = c"
    by (simp add: variant_normalises)
  with r c d show "fst (classify_query_with_deepseek w q tr) = Inr c"
    by (simp add: classify_unfold)
qed

lemma classify_closed:
  assumes "chat w (user_request (classify_prompt q)) = Inr r"
  shows "\<exists>c. fst (classify_query_with_deepseek w q tr) = Inr c
           \<and> (c \<in> set categories \<or> c = ''unknown'')"
  using assms by (simp add: classify_unfold)

lemmas norm_defs = lower_def lower_char_def strip_def lstrip_def rstrip_def isspace_def Let_def

lemmas prompt_defs = user_request_def classify_prompt_def readable_prompt_def nl_def

section \<open>The claims\<close>

text \<open>
  C1. Scenario 1: for the request with account number "123" and query text "what's my
  balance?", when the classification call returns "balance", the backend call for
  \<open>account/balance\<close> returns \<open>{"balance": 100}\<close> and the humanization call returns
  "Your balance is $100.", the pipeline returns exactly the reply
  \<open>{"response": "Your balance is $100."}\<close>.
\<close>

theorem scenario_balance:
  assumes "chat w (user_request (classify_prompt ''what's my balance?'')) = Inr rc"
    and "content (message rc) = ''balance''"
    and "post w (bank_request w ''account/balance'' (JObj [(''account_number'', JStr ''123'')])) = Inr resp"
    and "raise_for_status resp = None"
    and "json resp = Inr (JObj [(''balance'', JInt 100)])"
    and "chat w (user_request (readable_prompt ''what's my balance?'' (JObj [(''balance'', JInt 100)]))) = Inr rh"
    and "content (message rh) = ''Your balance is $100.''"
  shows "fst (bank_query w \<lparr>account_number = ''123'', query_text = ''what's my balance?''\<rparr> tr)
           = Inr [(''response'', ''Your balance is $100.'')]"
proof -
  have "lower (strip ''balance'') = ''balance''"
    by (simp add: norm_defs)
  moreover have "strip ''Your balance is $100.'' = ''Your balance is $100.''"
    by (simp add: norm_defs)
  ultimately show ?thesis
    using assms
    by (simp add: bank_query_def classify_unfold fetch_unfold convert_unfold
        categories_def map_of_endpoint_map account_payload_def)
qed

theorem scenario_balance_witness:
  "chat (scenario_env ''balance'') (user_request (classify_prompt ''what's my balance?''))
     = Inr (reply ''balance'')
   \<and> post (scenario_env ''balance'')
       (bank_request (scenario_env ''balance'') ''account/balance''
          (JObj [(''account_number'', JStr ''123'')]))
     = Inr (ok_response (JObj [(''balance'', JInt 100)]))
   \<and> chat (scenario_env ''balance'')
       (user_request (readable_prompt ''what's my balance?'' (JObj [(''balance'', JInt 100)])))
     = Inr (reply ''Your balance is $100.'')
   \<and> fst (bank_query (scenario_env ''balance'')
         \<lparr>account_number = ''123'', query_text = ''what's my balance?''\<rparr> [])
     = Inr [(''response'', ''Your balance is $100.'')]"
proof -
  have c: "chat (scenario_env ''balance'') (user_request (classify_prompt ''what's my balance?''))
      = Inr (reply ''balance'')"
    by (simp add: scenario_env_def stub_env_def)
  have p: "post (scenario_env ''balance'')
       (bank_request (scenario_env ''balance'') ''account/balance''
          (JObj [(''account_number'', JStr ''123'')]))
     = Inr (ok_response (JObj [(''balance'', JInt 100)]))"
    by (simp add: scenario_env_def stub_env_def)
  have h: "chat (scenario_env ''balance'')
       (user_request (readable_prompt ''what's my balance?'' (JObj [(''balance'', JInt 100)])))
     = Inr (reply ''Your balance is $100.'')"
    by (simp add: scenario_env_def stub_env_def prompt_defs)
  show ?thesis
    using c p h scenario_balance [OF c _ p _ _ h, of "[]"]
    by (simp add: reply_def ok_response_def raise_for_status_def)
qed

text \<open>
  C2. When classification yields \<open>unknown\<close>, or any label with no routing entry, the
  pipeline fails with the bad-request error (status 400) whose detail begins "Query not
  recognized.", and the only call made is the classification call: neither the backend
  nor the humanizer is invoked. The stubbed replies "unknown" and "transfer_funds" both
  end this way.
\<close>

theorem unrecognized_query_rejected:
  assumes "fst (classify_query_with_deepseek w (query_text request) tr) = Inr c"
    and "map_of endpoint_map c = None"
  shows "bank_query w request tr =
           (Inl (HTTPException 400 ''Query not recognized. Try rephrasing.''),
            tr @ [ChatCall (user_request (classify_prompt (query_text request)))])"
  using assms
  by (auto simp add: bank_query_def classify_unfold split: sum.splits)

theorem unrecognized_query_rejected_witness:
  "fst (classify_query_with_deepseek (classifier_env ''send money to Bob'' ''transfer_funds'')
         (query_text transfer_query) [])
     = Inr ''unknown''
   \<and> map_of endpoint_map ''unknown'' = None
   \<and> bank_query (classifier_env ''send money to Bob'' ''transfer_funds'') transfer_query [] =
       (Inl (HTTPException 400 ''Query not recognized. Try rephrasing.''),
        [ChatCall (user_request (classify_prompt ''send money to Bob''))])
   \<and> fst (classify_query_with_deepseek (classifier_env ''send money to Bob'' ''unknown'')
         (query_text transfer_query) [])
     = Inr ''unknown''
   \<and> bank_query (classifier_env ''send money to Bob'' ''unknown'') transfer_query [] =
       (Inl (HTTPException 400 ''Query not recognized. Try rephrasing.''),
        [ChatCall (user_request (classify_prompt ''send money to Bob''))])"
proof -
  have n1: "lower (strip ''transfer_funds'') = ''transfer_funds''"
    by (simp add: norm_defs)
  have n2: "lower (strip ''unknown'') = ''unknown''"
    by (simp add: norm_defs)
  have c1: "fst (classify_query_with_deepseek (classifier_env ''send money to Bob'' ''transfer_funds'')
      (query_text transfer_query) []) = Inr ''unknown''"
    by (simp add: classifier_env_def transfer_query_def classify_stub n1 categories_def)
  have c2: "fst (classify_query_with_deepseek (classifier_env ''send money to Bob'' ''unknown'')
      (query_text transfer_query) []) = Inr ''unknown''"
    by (simp add: classifier_env_def transfer_query_def classify_stub n2 categories_def)
  have m: "map_of endpoint_map ''unknown'' = None"
    by (simp add: map_of_endpoint_map)
  show ?thesis
    using c1 c2 m unrecognized_query_rejected [OF c1 m] unrecognized_query_rejected [OF c2 m]
    by (simp add: transfer_query_def)
qed

text \<open>
  C3, as amended. When the backend call fails, because \<open>requests.post\<close> raises a
  \<open>RequestException\<close> (a failure of the transport) or because the response has an error
  status, one from 400 to 599, \<open>fetch_bank_data\<close> raises one and the same error: the
  bad-request \<open>HTTPException\<close> whose detail is "API Error: " followed by the description
  of the cause (for a status: the status, its class, the reason phrase and the URL). In
  the pipeline the calls made are then the classification call and the backend call, and
  no more: the humanizer is not invoked.
\<close>

theorem backend_failure_is_api_error:
  assumes "backend_fails w (bank_request w endpoint payload) cause"
  shows "fetch_bank_data w endpoint payload tr' =
           (Inl (HTTPException 400 (''API Error: '' @ cause)),
            tr' @ [PostCall (bank_request w endpoint payload)])
         \<and> (fst (classify_query_with_deepseek w (query_text request) tr) = Inr c
              \<and> map_of endpoint_map c = Some endpoint \<and> payload = account_payload request
            \<longrightarrow> bank_query w request tr =
                  (Inl (HTTPException 400 (''API Error: '' @ cause)),
                   tr @ [ChatCall (user_request (classify_prompt (query_text request))),
                         PostCall (bank_request w endpoint payload)]))"
proof (intro conjI impI)
  show "fetch_bank_data w endpoint payload tr' =
           (Inl (HTTPException 400 (''API Error: '' @ cause)),
            tr' @ [PostCall (bank_request w endpoint payload)])"
    using assms by (rule fetch_fails)
next
  assume h: "fst (classify_query_with_deepseek w (query_text request) tr) = Inr c
     \<and> map_of endpoint_map c = Some endpoint \<and> payload = account_payload request"
  obtain tr1 where c: "classify_query_with_deepseek w (query_text request) tr = (Inr c, tr1)"
    and tr1: "tr1 = tr @ [ChatCall (user_request (classify_prompt (query_text request)))]"
    using h by (cases "classify_query_with_deepseek w (query_text request) tr")
      (simp add: classify_unfold)
  have "fetch_bank_data w endpoint (account_payload request) tr1 =
           (Inl (HTTPException 400 (''API Error: '' @ cause)),
            tr1 @ [PostCall (bank_request w endpoint (account_payload request))])"
    using assms h by (simp add: fetch_fails)
  with c h tr1 show "bank_query w request tr =
                  (Inl (HTTPException 400 (''API Error: '' @ cause)),
                   tr @ [ChatCall (user_request (classify_prompt (query_text request))),
                         PostCall (bank_request w endpoint payload)])"
    by (simp add: bank_query_def)
qed

theorem backend_failure_is_api_error_witness:
  "backend_fails (failing_env (Inr (error_response 404 ''Not Found'')))
     (bank_request (failing_env (Inr (error_response 404 ''Not Found''))) ''account/balance''
        (account_payload scenario_query)) not_found
   \<and> fst (classify_query_with_deepseek (failing_env (Inr (error_response 404 ''Not Found'')))
         (query_text scenario_query) []) = Inr ''balance''
   \<and> map_of endpoint_map ''balance'' = Some ''account/balance''
   \<and> fetch_bank_data (failing_env (Inr (error_response 404 ''Not Found''))) ''account/balance''
        (account_payload scenario_query) [] =
       (Inl (HTTPException 400 (''API Error: '' @ not_found)),
        [PostCall (bank_request (failing_env (Inr (error_response 404 ''Not Found'')))
           ''account/balance'' (account_payload scenario_query))])
   \<and> bank_query (failing_env (Inr (error_response 404 ''Not Found''))) scenario_query [] =
       (Inl (HTTPException 400 (''API Error: '' @ not_found)),
        [ChatCall (user_request (classify_prompt (query_text scenario_query))),
         PostCall (bank_request (failing_env (Inr (error_response 404 ''Not Found'')))
           ''account/balance'' (account_payload scenario_query))])
   \<and> backend_fails (failing_env (Inr (error_response 503 ''Service Unavailable'')))
       (bank_request (failing_env (Inr (error_response 503 ''Service Unavailable'')))
          ''account/balance'' (account_payload scenario_query)) unavailable
   \<and> bank_query (failing_env (Inr (error_response 503 ''Service Unavailable''))) scenario_query [] =
       (Inl (HTTPException 400 (''API Error: '' @ unavailable)),
        [ChatCall (user_request (classify_prompt (query_text scenario_query))),
         PostCall (bank_request (failing_env (Inr (error_response 503 ''Service Unavailable'')))
           ''account/balance'' (account_payload scenario_query))])
   \<and> backend_fails (failing_env (Inl (RequestException ''Connection refused'')))
       (bank_request (failing_env (Inl (RequestException ''Connection refused'')))
          ''account/balance'' (account_payload scenario_query)) ''Connection refused''
   \<and> bank_query (failing_env (Inl (RequestException ''Connection refused''))) scenario_query [] =
       (Inl (HTTPException 400 ''API Error: Connection refused''),
        [ChatCall (user_request (classify_prompt (query_text scenario_query))),
         PostCall (bank_request (failing_env (Inl (RequestException ''Connection refused'')))
           ''account/balance'' (account_payload scenario_query))])"
proof -
  let ?w = "failing_env (Inr (error_response 404 ''Not Found''))"
  let ?u = "failing_env (Inr (error_response 503 ''Service Unavailable''))"
  let ?v = "failing_env (Inl (RequestException ''Connection refused''))"
  have s4: "str_nat 404 = ''404''"
    by code_simp
  have s5: "str_nat 503 = ''503''"
    by code_simp
  have b: "backend_fails ?w
     (bank_request ?w ''account/balance'' (account_payload scenario_query)) not_found"
    by (simp add: backend_fails_def failing_env_def stub_env_def error_response_def
        not_found_def balance_url_def s4)
  have b'': "backend_fails ?u
     (bank_request ?u ''account/balance'' (account_payload scenario_query)) unavailable"
    by (simp add: backend_fails_def failing_env_def stub_env_def error_response_def
        unavailable_def balance_url_def s5)
  have b': "backend_fails ?v
     (bank_request ?v ''account/balance'' (account_payload scenario_query)) ''Connection refused''"
    by (simp add: backend_fails_def failing_env_def stub_env_def)
  have n: "lower (strip ''balance'') = ''balance''"
    by (simp add: norm_defs)
  have c: "fst (classify_query_with_deepseek ?w (query_text scenario_query) []) = Inr ''balance''"
    by (simp add: failing_env_def scenario_query_def classify_stub categories_def n)
  have c'': "fst (classify_query_with_deepseek ?u (query_text scenario_query) []) = Inr ''balance''"
    by (simp add: failing_env_def scenario_query_def classify_stub categories_def n)
  have c': "fst (classify_query_with_deepseek ?v (query_text scenario_query) []) = Inr ''balance''"
    by (simp add: failing_env_def scenario_query_def classify_stub categories_def n)
  have m: "map_of endpoint_map ''balance'' = Some ''account/balance''"
    by (simp add: map_of_endpoint_map)
  show ?thesis
    using b b' b'' c c' c'' m
      backend_failure_is_api_error [OF b, of "[]" scenario_query "[]" "''balance''"]
      backend_failure_is_api_error [OF b'', of "[]" scenario_query "[]" "''balance''"]
      backend_failure_is_api_error [OF b', of "[]" scenario_query "[]" "''balance''"]
    by simp
qed

text \<open>
  The specification's wording of C3 has every non-success status end in that error. A
  status outside 2xx on which \<open>raise_for_status\<close> does not raise is taken as a success:
  with the backend answering 300 and a JSON body in scenario 1, \<open>fetch_bank_data\<close>
  returns the body, the humanizer is called, and the pipeline completes with the reply.
\<close>

theorem non_success_status_counterexample:
  "post (failing_env (Inr multiple_choices))
       (bank_request (failing_env (Inr multiple_choices)) ''account/balance''
          (account_payload scenario_query))
     = Inr multiple_choices
   \<and> status_code multiple_choices = 300
   \<and> \<not> success_status (status_code multiple_choices)
   \<and> fetch_bank_data (failing_env (Inr multiple_choices)) ''account/balance''
        (account_payload scenario_query) []
     = (Inr (JObj [(''balance'', JInt 100)]),
        [PostCall (bank_request (failing_env (Inr multiple_choices)) ''account/balance''
           (account_payload scenario_query))])
   \<and> bank_query (failing_env (Inr multiple_choices)) scenario_query []
     = (Inr [(''response'', ''Your balance is $100.'')],
        [ChatCall (user_request (classify_prompt (query_text scenario_query))),
         PostCall (bank_request (failing_env (Inr multiple_choices)) ''account/balance''
           (account_payload scenario_query)),
         ChatCall (user_request (readable_prompt (query_text scenario_query)
           (JObj [(''balance'', JInt 100)])))])"
proof -
  let ?w = "failing_env (Inr multiple_choices)"
  have p: "post ?w (bank_request ?w ''account/balance'' (account_payload scenario_query))
     = Inr multiple_choices"
    by (simp add: failing_env_def stub_env_def)
  have r: "raise_for_status multiple_choices = None"
    by (simp add: raise_for_status_def multiple_choices_def)
  have j: "json multiple_choices = Inr (JObj [(''balance'', JInt 100)])"
    by (simp add: multiple_choices_def)
  have f: "fetch_bank_data ?w ''account/balance'' (account_payload scenario_query) tr
     = (Inr (JObj [(''balance'', JInt 100)]),
        tr @ [PostCall (bank_request ?w ''account/balance'' (account_payload scenario_query))])"
    for tr
    by (simp add: fetch_unfold p r j)
  have n: "lower (strip ''balance'') = ''balance''"
    by (simp add: norm_defs)
  have c: "chat ?w (user_request (classify_prompt (query_text scenario_query)))
     = Inr (reply ''balance'')"
    by (simp add: failing_env_def scenario_query_def stub_env_def)
  have h: "chat ?w (user_request (readable_prompt (query_text scenario_query)
       (JObj [(''balance'', JInt 100)])))
     = Inr (reply ''Your balance is $100.'')"
    by (simp add: failing_env_def scenario_query_def stub_env_def prompt_defs)
  have t: "strip ''Your balance is $100.'' = ''Your balance is $100.''"
    by (simp add: norm_defs)
  have q: "bank_query ?w scenario_query []
     = (Inr [(''response'', ''Your balance is $100.'')],
        [ChatCall (user_request (classify_prompt (query_text scenario_query))),
         PostCall (bank_request ?w ''account/balance'' (account_payload scenario_query)),
         ChatCall (user_request (readable_prompt (query_text scenario_query)
           (JObj [(''balance'', JInt 100)])))])"
    by (simp add: bank_query_def classify_unfold convert_unfold c h f reply_def n t
        categories_def map_of_endpoint_map)
  show ?thesis
    using p f [of "[]"] q
    by (simp add: multiple_choices_def success_status_def)
qed

text \<open>
  C4. Whatever the text-generation service replies, \<open>classify_query_with_deepseek\<close> returns
  one of the four operational categories exactly when the reply, with the whitespace at
  its two ends set aside and then lowercased, equals that category's label: the reply is
  a run of whitespace, a text whose lowercase form is the label, and a run of whitespace.
  Every other reply (a partial match, extra words, the empty text) yields \<open>unknown\<close>.
\<close>

theorem classify_exact_match:
  assumes "chat w (user_request (classify_prompt q)) = Inr r"
  shows "(\<forall>c \<in> set categories.
            fst (classify_query_with_deepseek w q tr) = Inr c
              \<longleftrightarrow> (\<exists>pre s suf. content (message r) = pre @ s @ suf
                     \<and> list_all isspace pre \<and> list_all isspace suf \<and> lower s = c))
         \<and> ((\<forall>c \<in> set categories.
                \<not> (\<exists>pre s suf. content (message r) = pre @ s @ suf
                      \<and> list_all isspace pre \<and> list_all isspace suf \<and> lower s = c))
              \<longrightarrow> fst (classify_query_with_deepseek w q tr) = Inr ''unknown'')"
proof (intro conjI ballI impI)
  fix c
  assume "c \<in> set categories"
  with assms show "fst (classify_query_with_deepseek w q tr) = Inr c
      \<longleftrightarrow> (\<exists>pre s suf. content (message r) = pre @ s @ suf
             \<and> list_all isspace pre \<and> list_all isspace suf \<and> lower s = c)"
    by (rule classify_characterised)
next
  assume no: "\<forall>c \<in> set categories.
      \<not> (\<exists>pre s suf. content (message r) = pre @ s @ suf
            \<and> list_all isspace pre \<and> list_all isspace suf \<and> lower s = c)"
  obtain c where c: "fst (classify_query_with_deepseek w q tr) = Inr c"
    and k: "c \<in> set categories \<or> c = ''unknown''"
    using classify_closed [OF assms, of tr] by blast
  have "c \<notin> set categories"
  proof
    assume i: "c \<in> set categories"
    with c classify_characterised [OF assms i, of tr] no show False
      by blast
  qed
  with c k show "fst (classify_query_with_deepseek w q tr) = Inr ''unknown''"
    by simp
qed

theorem classify_exact_match_witness:
  "chat (classifier_env ''show my loan'' padded_label)
       (user_request (classify_prompt ''show my loan''))
     = Inr (reply padded_label)
   \<and> padded_label = ''  '' @ ''Loan_Balance'' @ [CHR '' '', CHR 0x0A]
   \<and> list_all isspace ''  '' \<and> list_all isspace [CHR '' '', CHR 0x0A]
   \<and> lower ''Loan_Balance'' = ''loan_balance''
   \<and> fst (classify_query_with_deepseek (classifier_env ''show my loan'' padded_label)
         ''show my loan'' [])
     = Inr ''loan_balance''
   \<and> fst (classify_query_with_deepseek (classifier_env ''show my loan'' ''loan balance'')
         ''show my loan'' [])
     = Inr ''unknown''
   \<and> fst (classify_query_with_deepseek (classifier_env ''show my loan'' ''loan_balance please'')
         ''show my loan'' [])
     = Inr ''unknown''
   \<and> fst (classify_query_with_deepseek (classifier_env ''show my loan'' ''loan'')
         ''show my loan'' [])
     = Inr ''unknown''
   \<and> fst (classify_query_with_deepseek (classifier_env ''show my loan'' []) ''show my loan'' [])
     = Inr ''unknown''"
proof -
  let ?w = "classifier_env ''show my loan'' padded_label"
  have c: "chat ?w (user_request (classify_prompt ''show my loan'')) = Inr (reply padded_label)"
    by (simp add: classifier_env_def stub_env_def)
  have d: "padded_label = ''  '' @ ''Loan_Balance'' @ [CHR '' '', CHR 0x0A]"
    by (simp add: padded_label_def)
  have p: "list_all isspace ''  ''"
    by (simp add: isspace_def)
  have s: "list_all isspace [CHR '' '', CHR 0x0A]"
    by (simp add: isspace_def)
  have l: "lower ''Loan_Balance'' = ''loan_balance''"
    by code_simp
  have k: "''loan_balance'' \<in> set categories"
    by (simp add: categories_def)
  have "content (message (reply padded_label)) = ''  '' @ ''Loan_Balance'' @ [CHR '' '', CHR 0x0A]"
    using d by (simp add: reply_def)
  with p s l have "\<exists>pre s suf. content (message (reply padded_label)) = pre @ s @ suf
      \<and> list_all isspace pre \<and> list_all isspace suf \<and> lower s = ''loan_balance''"
    by blast
  with k classify_exact_match [OF c, of "[]"]
  have y: "fst (classify_query_with_deepseek ?w ''show my loan'' []) = Inr ''loan_balance''"
    by blast
  have n1: "lower (strip ''loan balance'') = ''loan balance''"
    by code_simp
  have n2: "lower (strip ''loan_balance please'') = ''loan_balance please''"
    by code_simp
  have n3: "lower (strip ''loan'') = ''loan''"
    by code_simp
  have n4: "lower (strip []) = []"
    by code_simp
  have u1: "fst (classify_query_with_deepseek (classifier_env ''show my loan'' ''loan balance'')
         ''show my loan'' []) = Inr ''unknown''"
    by (simp add: classifier_env_def classify_stub n1 categories_def)
  have u2: "fst (classify_query_with_deepseek
         (classifier_env ''show my loan'' ''loan_balance please'') ''show my loan'' [])
       = Inr ''unknown''"
    by (simp add: classifier_env_def classify_stub n2 categories_def)
  have u3: "fst (classify_query_with_deepseek (classifier_env ''show my loan'' ''loan'')
         ''show my loan'' []) = Inr ''unknown''"
    by (simp add: classifier_env_def classify_stub n3 categories_def)
  have u4: "fst (classify_query_with_deepseek (classifier_env ''show my loan'' [])
         ''show my loan'' []) = Inr ''unknown''"
    by (simp add: classifier_env_def classify_stub n4 categories_def)
  from c d p s l y u1 u2 u3 u4 show ?thesis
    by (intro conjI)
qed

text \<open>
  C5, as amended. A reply that is a whitespace-padded or differently-cased variant of a
  valid label (such as " Balance ") is normalised to that label: classification yields
  the label, and the pipeline goes on to call the backend at the label's endpoint. The
  pipeline fails as an unrecognized query (the 400 error "Query not recognized. Try
  rephrasing." after the classification call alone) exactly when the reply, trimmed and
  lowercased, is none of the four labels.
\<close>

theorem padded_label_is_routed:
  assumes "chat w (user_request (classify_prompt (query_text request))) = Inr r"
  shows "(list_all isspace pre \<and> list_all isspace suf \<and> content (message r) = pre @ s @ suf
            \<and> lower s = c \<and> c \<in> set categories
          \<longrightarrow> fst (classify_query_with_deepseek w (query_text request) tr) = Inr c
              \<and> (\<exists>endpoint rest. map_of endpoint_map c = Some endpoint
                    \<and> snd (bank_query w request tr) =
                        tr @ [ChatCall (user_request (classify_prompt (query_text request))),
                              PostCall (bank_request w endpoint (account_payload request))] @ rest))
         \<and> (bank_query w request tr =
               (Inl (HTTPException 400 ''Query not recognized. Try rephrasing.''),
                tr @ [ChatCall (user_request (classify_prompt (query_text request)))])
            \<longleftrightarrow> lower (strip (content (message r))) \<notin> set categories)"
proof (intro conjI impI)
  assume v: "list_all isspace pre \<and> list_all isspace suf \<and> content (message r) = pre @ s @ suf
            \<and> lower s = c \<and> c \<in> set categories"
  then have "lower (strip (content (message r))) = c"
    by (simp add: variant_normalises)
  with v assms show c: "fst (classify_query_with_deepseek w (query_text request) tr) = Inr c"
    by (simp add: classify_unfold)
  from v obtain endpoint where e: "map_of endpoint_map c = Some endpoint"
    using routed_iff [of c] by auto
  from bank_query_routed [OF c e] e
  show "\<exists>endpoint rest. map_of endpoint_map c = Some endpoint
      \<and> snd (bank_query w request tr) =
          tr @ [ChatCall (user_request (classify_prompt (query_text request))),
                PostCall (bank_request w endpoint (account_payload request))] @ rest"
    by blast
next
  let ?n = "lower (strip (content (message r)))"
  show "bank_query w request tr =
               (Inl (HTTPException 400 ''Query not recognized. Try rephrasing.''),
                tr @ [ChatCall (user_request (classify_prompt (query_text request)))])
            \<longleftrightarrow> ?n \<notin> set categories"
  proof
    assume nr: "bank_query w request tr =
               (Inl (HTTPException 400 ''Query not recognized. Try rephrasing.''),
                tr @ [ChatCall (user_request (classify_prompt (query_text request)))])"
    show "?n \<notin> set categories"
    proof
      assume i: "?n \<in> set categories"
      with assms have c: "fst (classify_query_with_deepseek w (query_text request) tr) = Inr ?n"
        by (simp add: classify_unfold)
      from i obtain endpoint where e: "map_of endpoint_map ?n = Some endpoint"
        using routed_iff [of ?n] by auto
      from bank_query_routed [OF c e] nr show False
        by auto
    qed
  next
    assume o: "?n \<notin> set categories"
    with assms have c: "fst (classify_query_with_deepseek w (query_text request) tr) = Inr ''unknown''"
      by (simp add: classify_unfold)
    then show "bank_query w request tr =
               (Inl (HTTPException 400 ''Query not recognized. Try rephrasing.''),
                tr @ [ChatCall (user_request (classify_prompt (query_text request)))])"
      using assms o
      by (simp add: bank_query_def classify_unfold map_of_endpoint_map)
  qed
qed

theorem padded_label_is_routed_witness:
  "chat (scenario_env '' Balance '') (user_request (classify_prompt (query_text scenario_query)))
     = Inr (reply '' Balance '')
   \<and> list_all isspace '' '' \<and> lower ''Balance'' = ''balance'' \<and> ''balance'' \<in> set categories
   \<and> fst (classify_query_with_deepseek (scenario_env '' Balance '') (query_text scenario_query) [])
       = Inr ''balance''
   \<and> (\<exists>rest. snd (bank_query (scenario_env '' Balance '') scenario_query []) =
         [ChatCall (user_request (classify_prompt (query_text scenario_query))),
          PostCall (bank_request (scenario_env '' Balance '') ''account/balance''
             (account_payload scenario_query))] @ rest)
   \<and> bank_query (scenario_env '' Balance '') scenario_query [] \<noteq>
       (Inl (HTTPException 400 ''Query not recognized. Try rephrasing.''),
        [ChatCall (user_request (classify_prompt (query_text scenario_query)))])"
proof -
  let ?w = "scenario_env '' Balance ''"
  have c: "chat ?w (user_request (classify_prompt (query_text scenario_query)))
     = Inr (reply '' Balance '')"
    by (simp add: scenario_env_def scenario_query_def stub_env_def)
  have sp: "list_all isspace '' ''"
    by (simp add: isspace_def)
  have lo: "lower ''Balance'' = ''balance''"
    by code_simp
  have ca: "''balance'' \<in> set categories"
    by (simp add: categories_def)
  have n: "lower (strip '' Balance '') = ''balance''"
    by code_simp
  show ?thesis
    using c sp lo ca
      padded_label_is_routed [OF c, of "'' ''" "'' ''" "''Balance''" "''balance''" "[]"]
    by (simp add: reply_def n map_of_endpoint_map)
qed

text \<open>
  The specification's wording of C5 has the pipeline fail as an unrecognized query for
  every padded or differently-cased variant of a valid label. With the classifier
  replying " Balance " in scenario 1, the pipeline instead completes with the reply.
\<close>

theorem padded_label_counterexample:
  "chat (scenario_env '' Balance '') (user_request (classify_prompt (query_text scenario_query)))
     = Inr (reply '' Balance '')
   \<and> fst (bank_query (scenario_env '' Balance '') scenario_query [])
     = Inr [(''response'', ''Your balance is $100.'')]
   \<and> fst (bank_query (scenario_env '' Balance '') scenario_query [])
     \<noteq> Inl (HTTPException 400 ''Query not recognized. Try rephrasing.'')"
proof -
  have "lower (strip '' Balance '') = ''balance''"
    by code_simp
  moreover have "strip ''Your balance is $100.'' = ''Your balance is $100.''"
    by (simp add: norm_defs)
  ultimately show ?thesis
    by (simp add: bank_query_def classify_unfold fetch_unfold convert_unfold scenario_env_def
        scenario_query_def stub_env_def reply_def ok_response_def categories_def
        raise_for_status_def
        map_of_endpoint_map prompt_defs account_payload_def)
qed

text \<open>
  C6. The routing table is a fixed, one-to-one mapping over the four operational
  categories: \<open>balance\<close> to \<open>account/balance\<close>, \<open>mini_statement\<close> to
  \<open>account/mini-statement\<close>, \<open>last_transaction\<close> to \<open>account/transactions\<close> and
  \<open>loan_balance\<close> to \<open>account/loan-balance\<close>. Its keys are exactly the four categories,
  no two of them share an endpoint, and the lookup depends on the category alone (it
  takes neither the environment nor the log of calls).
\<close>

theorem endpoint_map_one_to_one:
  "map_of endpoint_map ''balance'' = Some ''account/balance''
   \<and> map_of endpoint_map ''mini_statement'' = Some ''account/mini-statement''
   \<and> map_of endpoint_map ''last_transaction'' = Some ''account/transactions''
   \<and> map_of endpoint_map ''loan_balance'' = Some ''account/loan-balance''
   \<and> dom (map_of endpoint_map) = set categories
   \<and> distinct (map fst endpoint_map)
   \<and> distinct (map snd endpoint_map)
   \<and> inj_on (map_of endpoint_map) (set categories)"
proof -
  have d: "dom (map_of endpoint_map) = set categories"
    using routed_iff by (auto simp add: dom_def)
  have i: "inj_on (map_of endpoint_map) (set categories)"
    by (simp add: inj_on_def categories_def map_of_endpoint_map)
  show ?thesis
    using d i by (simp add: map_of_endpoint_map) (simp add: endpoint_map_def)
qed

text \<open>
  C7. Two runs of the pipeline on the same request, possibly in different processes and
  after different earlier calls, give the same output (the same reply, or the same
  error) whenever the text-generation service and the backend answer the requests of
  the two runs identically.
\<close>

theorem pipeline_idempotent:
  assumes c: "chat w1 (user_request (classify_prompt (query_text request)))
                = chat w2 (user_request (classify_prompt (query_text request)))"
    and b: "\<forall>endpoint. post w1 (bank_request w1 endpoint (account_payload request))
                = post w2 (bank_request w2 endpoint (account_payload request))"
    and h: "\<forall>raw. chat w1 (user_request (readable_prompt (query_text request) raw))
                = chat w2 (user_request (readable_prompt (query_text request) raw))"
  shows "fst (bank_query w1 request tr1) = fst (bank_query w2 request tr2)"
  using c b h
  by (simp add: bank_query_def classify_unfold fetch_unfold convert_unfold
      split: sum.splits option.splits)

theorem pipeline_idempotent_witness:
  "chat (scenario_env ''balance'') (user_request (classify_prompt (query_text scenario_query)))
     = chat rotated_env (user_request (classify_prompt (query_text scenario_query)))
   \<and> (\<forall>endpoint. post (scenario_env ''balance'')
          (bank_request (scenario_env ''balance'') endpoint (account_payload scenario_query))
        = post rotated_env (bank_request rotated_env endpoint (account_payload scenario_query)))
   \<and> (\<forall>raw. chat (scenario_env ''balance'')
          (user_request (readable_prompt (query_text scenario_query) raw))
        = chat rotated_env (user_request (readable_prompt (query_text scenario_query) raw)))
   \<and> fst (bank_query (scenario_env ''balance'') scenario_query [])
     = fst (bank_query rotated_env scenario_query
         (snd (bank_query (scenario_env ''balance'') scenario_query [])))"
proof -
  have c: "chat (scenario_env ''balance'') (user_request (classify_prompt (query_text scenario_query)))
     = chat rotated_env (user_request (classify_prompt (query_text scenario_query)))"
    by (simp add: rotated_env_def)
  have b: "\<forall>endpoint. post (scenario_env ''balance'')
          (bank_request (scenario_env ''balance'') endpoint (account_payload scenario_query))
        = post rotated_env (bank_request rotated_env endpoint (account_payload scenario_query))"
    by (simp add: rotated_env_def scenario_env_def stub_env_def)
  have h: "\<forall>raw. chat (scenario_env ''balance'')
          (user_request (readable_prompt (query_text scenario_query) raw))
        = chat rotated_env (user_request (readable_prompt (query_text scenario_query) raw))"
    by (simp add: rotated_env_def)
  show ?thesis
    using c b h pipeline_idempotent [OF c b h, of "[]"
        "snd (bank_query (scenario_env ''balance'') scenario_query [])"]
    by simp
qed

text \<open>
  C8. For every query text and raw result, \<open>convert_json_to_readable_format\<close> calls the
  text-generation service exactly once, and when the service replies it returns the
  reply's text with the whitespace at both ends removed and nothing else changed: the
  reply is the result between two runs of whitespace, and the result neither begins nor
  ends with whitespace. No check of the content, no second classification and no bound
  on the length stands between the reply and the result.
\<close>

theorem humanize_once_trimmed:
  "snd (convert_json_to_readable_format w q raw tr)
     = tr @ [ChatCall (user_request (readable_prompt q raw))]
   \<and> (chat w (user_request (readable_prompt q raw)) = Inr r
       \<longrightarrow> fst (convert_json_to_readable_format w q raw tr) = Inr (strip (content (message r)))
           \<and> (\<exists>pre suf. content (message r) = pre @ strip (content (message r)) @ suf
                 \<and> list_all isspace pre \<and> list_all isspace suf)
           \<and> (strip (content (message r)) = []
               \<or> (\<not> isspace (hd (strip (content (message r))))
                   \<and> \<not> isspace (last (strip (content (message r)))))))"
  using strip_padding [of "content (message r)"] strip_ends [of "content (message r)"]
  by (simp add: convert_unfold) blast

theorem humanize_once_trimmed_witness:
  "chat (humanizer_env padded_answer)
       (user_request (readable_prompt ''what's my balance?'' (JObj [(''balance'', JInt 100)])))
     = Inr (reply padded_answer)
   \<and> convert_json_to_readable_format (humanizer_env padded_answer)
       ''what's my balance?'' (JObj [(''balance'', JInt 100)]) []
     = (Inr ''Your balance is $100.'',
        [ChatCall (user_request
           (readable_prompt ''what's my balance?'' (JObj [(''balance'', JInt 100)])))])"
proof -
  let ?w = "humanizer_env padded_answer"
  let ?c = "convert_json_to_readable_format ?w ''what's my balance?''
    (JObj [(''balance'', JInt 100)]) []"
  have c: "chat ?w
       (user_request (readable_prompt ''what's my balance?'' (JObj [(''balance'', JInt 100)])))
     = Inr (reply padded_answer)"
    by (simp add: humanizer_env_def stub_env_def prompt_defs)
  have n: "strip padded_answer = ''Your balance is $100.''"
    by (simp add: padded_answer_def norm_defs)
  have "snd ?c = [ChatCall (user_request
           (readable_prompt ''what's my balance?'' (JObj [(''balance'', JInt 100)])))]
     \<and> fst ?c = Inr ''Your balance is $100.''"
    using c humanize_once_trimmed [of ?w "''what's my balance?''" "JObj [(''balance'', JInt 100)]"
        "[]" "reply padded_answer"]
    by (simp add: reply_def n)
  then have "?c = (Inr ''Your balance is $100.'', [ChatCall (user_request
           (readable_prompt ''what's my balance?'' (JObj [(''balance'', JInt 100)])))])"
    by (cases ?c) simp
  with c show ?thesis
    by simp
qed

text \<open>
  C9. For the empty query text, whenever the text-generation service replies,
  classification raises nothing and returns one of the four labels or \<open>unknown\<close>. It
  returns a label exactly when the reply, with the whitespace at its two ends set aside
  and then lowercased, equals that label (the reply is a run of whitespace, a text whose
  lowercase form is the label, and a run of whitespace), and \<open>unknown\<close> otherwise.
\<close>

theorem empty_query_classified:
  assumes "chat w (user_request (classify_prompt [])) = Inr r"
  shows "(\<exists>c. fst (classify_query_with_deepseek w [] tr) = Inr c
            \<and> (c \<in> set categories \<or> c = ''unknown''))
         \<and> (\<forall>c \<in> set categories.
              fst (classify_query_with_deepseek w [] tr) = Inr c
                \<longleftrightarrow> (\<exists>pre s suf. content (message r) = pre @ s @ suf
                       \<and> list_all isspace pre \<and> list_all isspace suf \<and> lower s = c))"
  using classify_closed [OF assms, of tr] classify_characterised [OF assms, of _ tr]
  by blast

theorem empty_query_classified_witness:
  "chat (classifier_env [] balance_line) (user_request (classify_prompt []))
     = Inr (reply balance_line)
   \<and> balance_line = [] @ ''balance'' @ [CHR 0x0A]
   \<and> list_all isspace [CHR 0x0A]
   \<and> fst (classify_query_with_deepseek (classifier_env [] balance_line) [] []) = Inr ''balance''
   \<and> chat (classifier_env [] '' Balance'') (user_request (classify_prompt []))
     = Inr (reply '' Balance'')
   \<and> list_all isspace '' '' \<and> lower ''Balance'' = ''balance''
   \<and> fst (classify_query_with_deepseek (classifier_env [] '' Balance'') [] []) = Inr ''balance''
   \<and> chat (classifier_env [] ''How can I help?'') (user_request (classify_prompt []))
     = Inr (reply ''How can I help?'')
   \<and> fst (classify_query_with_deepseek (classifier_env [] ''How can I help?'') [] [])
     = Inr ''unknown''"
proof -
  have c1: "chat (classifier_env [] balance_line) (user_request (classify_prompt []))
     = Inr (reply balance_line)"
    by (simp add: classifier_env_def stub_env_def)
  have c2: "chat (classifier_env [] '' Balance'') (user_request (classify_prompt []))
     = Inr (reply '' Balance'')"
    by (simp add: classifier_env_def stub_env_def)
  have c3: "chat (classifier_env [] ''How can I help?'') (user_request (classify_prompt []))
     = Inr (reply ''How can I help?'')"
    by (simp add: classifier_env_def stub_env_def)
  have d: "balance_line = [] @ ''balance'' @ [CHR 0x0A]"
    by (simp add: balance_line_def)
  have s: "list_all isspace [CHR 0x0A]"
    by (simp add: isspace_def)
  have p: "list_all isspace '' ''"
    by (simp add: isspace_def)
  have e: "list_all isspace []"
    by simp
  have l1: "lower ''balance'' = ''balance''"
    by code_simp
  have l2: "lower ''Balance'' = ''balance''"
    by code_simp
  have k: "''balance'' \<in> set categories"
    by (simp add: categories_def)
  have "content (message (reply balance_line)) = [] @ ''balance'' @ [CHR 0x0A]"
    using d by (simp add: reply_def)
  with e s l1 have "\<exists>pre s suf. content (message (reply balance_line)) = pre @ s @ suf
      \<and> list_all isspace pre \<and> list_all isspace suf \<and> lower s = ''balance''"
    by blast
  with k empty_query_classified [OF c1, of "[]"]
  have y1: "fst (classify_query_with_deepseek (classifier_env [] balance_line) [] [])
      = Inr ''balance''"
    by blast
  have "content (message (reply '' Balance'')) = '' '' @ ''Balance'' @ []"
    by (simp add: reply_def)
  with p e l2 have "\<exists>pre s suf. content (message (reply '' Balance'')) = pre @ s @ suf
      \<and> list_all isspace pre \<and> list_all isspace suf \<and> lower s = ''balance''"
    by blast
  with k empty_query_classified [OF c2, of "[]"]
  have y2: "fst (classify_query_with_deepseek (classifier_env [] '' Balance'') [] [])
      = Inr ''balance''"
    by blast
  have n: "lower (strip ''How can I help?'') = ''how can i help?''"
    by code_simp
  have y3: "fst (classify_query_with_deepseek (classifier_env [] ''How can I help?'') [] [])
      = Inr ''unknown''"
    by (simp add: classifier_env_def classify_stub n categories_def)
  from c1 d s y1 c2 p l2 y2 c3 y3 show ?thesis
    by (intro conjI)
qed



end
